theory Spec2Isabelle
  imports Main "HOL-Library.Word"
begin

section \<open>The dual-mode event buffer of include/gadget/buffer.h\<close>

text \<open>
  The header declares one per-CPU array map, \<open>gadget_heap\<close>, and two inline functions,
  \<open>gadget_reserve_buf\<close> and \<open>gadget_submit_buf\<close>. Both branch on
  \<open>bpf_core_type_exists(struct bpf_ringbuf)\<close> and otherwise only call BPF helpers of the
  kernel. The two functions are embedded over a record of those helpers, so that every
  statement about them alone holds for any behaviour of the helpers; a model of the
  helpers, written from the specification, is given afterwards.
\<close>

subsection \<open>Machine types and constants\<close>

type_synonym u8 = "8 word"
type_synonym u64 = "64 word"

text \<open>
  The return type \<open>long\<close> of \<open>gadget_submit_buf\<close> (64 bits on the BPF target) and the
  \<open>int\<close> of the key: words, read as signed numbers with \<open>sint\<close>.
\<close>

type_synonym long = "64 word"
type_synonym s32 = "32 word"

text \<open>\<open>#define MAX_EVENT_SIZE 10240\<close> (the default; the header lets a build override it).\<close>

definition MAX_EVENT_SIZE :: nat where
  "MAX_EVENT_SIZE = 10240"

text \<open>
  Modelled from the spec: \<open>BPF_F_CURRENT_CPU\<close> comes from vmlinux.h, which is not part of
  the sources; it is the "current-CPU flag" of the secondary delivery mechanism, the
  kernel's constant \<open>0xffffffffULL\<close>.
\<close>

definition BPF_F_CURRENT_CPU :: u64 where
  "BPF_F_CURRENT_CPU = 0xffffffff"

text \<open>\<open>static const int zero = 0;\<close> in \<open>gadget_reserve_buf\<close>, the key handed to the lookup.\<close>

definition zero_key :: s32 where
  "zero_key = 0"

text \<open>\<open>__uint(max_entries, 1)\<close> of \<open>gadget_heap\<close>.\<close>

definition gadget_heap_max_entries :: nat where
  "gadget_heap_max_entries = 1"

subsection \<open>Maps, pointers, contexts\<close>

text \<open>
  The \<open>void *map\<close> arguments: the address of \<open>gadget_heap\<close>, or of a map declared with
  \<open>GADGET_TRACER_MAP(name, size)\<close>, numbered here.
\<close>

datatype map_ref = gadget_heap | tracer_map nat

text \<open>
  A \<open>void *\<close> buffer is \<open>NULL\<close> (\<open>None\<close>) or the base of a memory region: the cell of
  \<open>gadget_heap\<close> at index 0 of one CPU, a record of a ring buffer (map number, record
  number), or memory of the caller's own.
\<close>

datatype region = Slot nat | Record nat nat | Local nat

type_synonym ptr = "region option"

text \<open>The \<open>void *ctx\<close> of the running program, opaque to the header.\<close>

type_synonym ctx = nat

subsection \<open>The helpers the header calls\<close>

text \<open>
  Modelled from the spec: the BPF helpers and the CO-RE probe are code of the kernel and
  of libbpf, not of these sources. \<open>bpf_core_type_exists(struct bpf_ringbuf)\<close> is the
  "Capability Flag: a boolean, resolved once per process/module lifetime (logically
  immutable after first check)"; it is a field of the environment a program is loaded
  into, not of the state the helpers change. The four helpers take the state and return
  the new one.
\<close>

record 's helpers =
  bpf_core_type_exists_bpf_ringbuf :: bool
  bpf_ringbuf_reserve :: "map_ref \<Rightarrow> u64 \<Rightarrow> u64 \<Rightarrow> 's \<Rightarrow> ptr \<times> 's"
  bpf_ringbuf_submit :: "ptr \<Rightarrow> u64 \<Rightarrow> 's \<Rightarrow> 's"
  bpf_map_lookup_elem :: "map_ref \<Rightarrow> s32 \<Rightarrow> 's \<Rightarrow> ptr \<times> 's"
  bpf_perf_event_output :: "ctx \<Rightarrow> map_ref \<Rightarrow> u64 \<Rightarrow> ptr \<Rightarrow> u64 \<Rightarrow> 's \<Rightarrow> long \<times> 's"

subsection \<open>The two functions of the header\<close>

text \<open>
  \<^verbatim>\<open>
  static __always_inline void *gadget_reserve_buf(void *map, __u64 size)
  {
      static const int zero = 0;
      if (bpf_core_type_exists(struct bpf_ringbuf))
          return bpf_ringbuf_reserve(map, size, 0);
      return bpf_map_lookup_elem(&gadget_heap, &zero);
  }
  \<close>
\<close>

definition gadget_reserve_buf :: "'s helpers \<Rightarrow> map_ref \<Rightarrow> u64 \<Rightarrow> 's \<Rightarrow> ptr \<times> 's" where
  "gadget_reserve_buf K m sz s =
     (if bpf_core_type_exists_bpf_ringbuf K then bpf_ringbuf_reserve K m sz 0 s
      else bpf_map_lookup_elem K gadget_heap zero_key s)"

text \<open>
  \<^verbatim>\<open>
  static __always_inline long gadget_submit_buf(void *ctx, void *map, void *buf, __u64 size)
  {
      if (bpf_core_type_exists(struct bpf_ringbuf)) {
          bpf_ringbuf_submit(buf, 0);
          return 0;
      }
      return bpf_perf_event_output(ctx, map, BPF_F_CURRENT_CPU, buf, size);
  }
  \<close>
\<close>

definition gadget_submit_buf ::
  "'s helpers \<Rightarrow> ctx \<Rightarrow> map_ref \<Rightarrow> ptr \<Rightarrow> u64 \<Rightarrow> 's \<Rightarrow> long \<times> 's" where
  "gadget_submit_buf K c m buf sz s =
     (if bpf_core_type_exists_bpf_ringbuf K then (0, bpf_ringbuf_submit K buf 0 s)
      else bpf_perf_event_output K c m BPF_F_CURRENT_CPU buf sz s)"

subsection \<open>Executions of a calling program\<close>

text \<open>
  Modelled from the spec: the instrumentation programs that call the header are not in
  the sources. A caller is any program that reserves, submits and, in between, works on
  the state by itself (writes into a buffer it holds); each next step may depend on the
  handle or the status the header returned.
\<close>

datatype 's prog =
    Halt
  | Reserve map_ref u64 "ptr \<Rightarrow> 's prog"
  | Submit ctx map_ref ptr u64 "long \<Rightarrow> 's prog"
  | Caller "'s \<Rightarrow> 's" "'s prog"

primrec exec :: "'s helpers \<Rightarrow> 's prog \<Rightarrow> 's \<Rightarrow> 's" where
  "exec K Halt = (\<lambda>s. s)"
| "exec K (Reserve m sz cont) =
     (\<lambda>s. case gadget_reserve_buf K m sz s of (p, s') \<Rightarrow> exec K (cont p) s')"
| "exec K (Submit c m buf sz cont) =
     (\<lambda>s. case gadget_submit_buf K c m buf sz s of (st, s') \<Rightarrow> exec K (cont st) s')"
| "exec K (Caller f rest) = (\<lambda>s. exec K rest (f s))"

subsection \<open>A model of the kernel side\<close>

text \<open>
  Modelled from the spec: the Queue Channel, "an ordered, multi-producer delivery channel
  sized in bytes (configurable capacity) that accepts variable-length records". \<open>used\<close>
  counts the bytes of the records reserved and not yet consumed, \<open>queue\<close> holds the
  submitted records, oldest first, as the consumer sees them.
\<close>

record ringbuf =
  max_entries :: nat
  used :: nat
  next_id :: nat
  queue :: "u8 list list"

text \<open>
  Modelled from the spec: the state of the kernel side. \<open>mem\<close> gives the contents of the
  regions that exist; \<open>uninit\<close> is what memory never written holds; \<open>rings\<close> are the
  ring buffer maps; \<open>perf_verdict\<close> is the status the secondary delivery mechanism
  reports for an event (map, CPU, bytes), and \<open>perf_events\<close> the events it accepted, per
  map and CPU.
\<close>

record kernel =
  cpu :: nat
  mem :: "region \<rightharpoonup> u8 list"
  uninit :: "nat \<Rightarrow> u8"
  rings :: "nat \<rightharpoonup> ringbuf"
  perf_verdict :: "map_ref \<Rightarrow> nat \<Rightarrow> u8 list \<Rightarrow> long"
  perf_events :: "map_ref \<times> nat \<Rightarrow> u8 list list"

text \<open>
  Modelled from the spec: reading \<open>n\<close> bytes at a pointer, and the caller's write of
  \<open>data\<close> at the start of a buffer it holds. Both fail (\<open>None\<close>) on \<open>NULL\<close>, on a region
  that does not exist and past the end of the region: an "over-length write into a
  handle" is a contract violation, not a behaviour.
\<close>

definition load :: "kernel \<Rightarrow> ptr \<Rightarrow> nat \<Rightarrow> u8 list option" where
  "load k p n =
     (case p of
        None \<Rightarrow> None
      | Some r \<Rightarrow>
          (case mem k r of
             None \<Rightarrow> None
           | Some bs \<Rightarrow> if n \<le> length bs then Some (take n bs) else None))"

definition write_buf :: "ptr \<Rightarrow> u8 list \<Rightarrow> kernel \<Rightarrow> kernel option" where
  "write_buf p data k =
     (case p of
        None \<Rightarrow> None
      | Some r \<Rightarrow>
          (case mem k r of
             None \<Rightarrow> None
           | Some bs \<Rightarrow>
               if length data \<le> length bs
               then Some (k\<lparr>mem := (mem k)(r \<mapsto> data @ drop (length data) bs)\<rparr>)
               else None))"

text \<open>
  Modelled from the spec: \<open>bpf_ringbuf_reserve\<close>. "A reservation against it yields a
  freshly allocated record buffer of the exact requested size"; "the queue-like
  transport may be transiently exhausted (no capacity available); reserve then fails and
  returns no handle". The new record holds whatever the ring's memory held ("not
  zero-initialized").
\<close>

definition kernel_ringbuf_reserve :: "map_ref \<Rightarrow> u64 \<Rightarrow> u64 \<Rightarrow> kernel \<Rightarrow> ptr \<times> kernel" where
  "kernel_ringbuf_reserve m sz flags k =
     (case m of
        gadget_heap \<Rightarrow> (None, k)
      | tracer_map i \<Rightarrow>
          (case rings k i of
             None \<Rightarrow> (None, k)
           | Some rb \<Rightarrow>
               if used rb + unat sz \<le> max_entries rb
               then (Some (Record i (next_id rb)),
                     k\<lparr>mem := (mem k)(Record i (next_id rb) \<mapsto>
                                   map (uninit k) [used rb ..< used rb + unat sz]),
                       rings := (rings k)(i \<mapsto>
                                   rb\<lparr>used := used rb + unat sz,
                                      next_id := Suc (next_id rb)\<rparr>)\<rparr>)
               else (None, k)))"

text \<open>
  Modelled from the spec: \<open>bpf_ringbuf_submit\<close>. "Submission enqueues that exact
  record", and the handle is consumed. A pointer that is no live record of a ring leaves
  the state as it is.
\<close>

definition kernel_ringbuf_submit :: "ptr \<Rightarrow> u64 \<Rightarrow> kernel \<Rightarrow> kernel" where
  "kernel_ringbuf_submit buf flags k =
     (case buf of
        Some (Record i n) \<Rightarrow>
          (case rings k i of
             None \<Rightarrow> k
           | Some rb \<Rightarrow>
               (case mem k (Record i n) of
                  None \<Rightarrow> k
                | Some bs \<Rightarrow>
                    k\<lparr>mem := (mem k)(Record i n := None),
                      rings := (rings k)(i \<mapsto> rb\<lparr>queue := queue rb @ [bs]\<rparr>)\<rparr>))
      | _ \<Rightarrow> k)"

text \<open>
  Modelled from the spec: \<open>bpf_map_lookup_elem\<close> on the per-CPU array. "Look up the single
  Scratch Slot (constant index 0)"; "the Scratch Slot lookup may fail only if the slot
  table itself was not initialized". An index at or beyond \<open>max_entries\<close>, and a map that
  is not \<open>gadget_heap\<close>, give \<open>NULL\<close>. Nothing is allocated: the state is returned as it
  was.
\<close>

definition kernel_map_lookup_elem :: "map_ref \<Rightarrow> s32 \<Rightarrow> kernel \<Rightarrow> ptr \<times> kernel" where
  "kernel_map_lookup_elem m key k =
     (case m of
        gadget_heap \<Rightarrow>
          if unat key < gadget_heap_max_entries \<and> mem k (Slot (cpu k)) \<noteq> None
          then (Some (Slot (cpu k)), k)
          else (None, k)
      | tracer_map i \<Rightarrow> (None, k))"

text \<open>
  Modelled from the spec: \<open>bpf_perf_event_output\<close>, the Secondary delivery mechanism, "an
  external per-execution-context output primitive this component calls with (context,
  channel reference, data pointer, length)", whose status is "non-negative = accepted,
  negative = rejected/dropped". It reads \<open>size\<close> bytes at \<open>data\<close>; with
  \<open>BPF_F_CURRENT_CPU\<close> the event goes to the buffer of the running CPU. Data that cannot
  be read is rejected (the kernel's \<open>-EFAULT\<close>, -14).
\<close>

definition kernel_perf_event_output ::
  "ctx \<Rightarrow> map_ref \<Rightarrow> u64 \<Rightarrow> ptr \<Rightarrow> u64 \<Rightarrow> kernel \<Rightarrow> long \<times> kernel" where
  "kernel_perf_event_output c m flags data sz k =
     (let target = (if flags = BPF_F_CURRENT_CPU then cpu k else unat flags) in
      case load k data (unat sz) of
        None \<Rightarrow> (- 14, k)
      | Some bs \<Rightarrow>
          (let st = perf_verdict k m target bs in
           if 0 \<le> sint st
           then (st, k\<lparr>perf_events :=
                         (perf_events k)((m, target) := perf_events k (m, target) @ [bs])\<rparr>)
           else (st, k)))"

text \<open>The helpers of a kernel with (\<open>True\<close>) or without (\<open>False\<close>) \<open>struct bpf_ringbuf\<close>.\<close>

definition linux :: "bool \<Rightarrow> kernel helpers" where
  "linux b =
     \<lparr>bpf_core_type_exists_bpf_ringbuf = b,
      bpf_ringbuf_reserve = kernel_ringbuf_reserve,
      bpf_ringbuf_submit = kernel_ringbuf_submit,
      bpf_map_lookup_elem = kernel_map_lookup_elem,
      bpf_perf_event_output = kernel_perf_event_output\<rparr>"

text \<open>
  The slot table is initialised when the cell of the running CPU exists with the
  \<open>value_size\<close> the map declares, \<open>MAX_EVENT_SIZE\<close>.
\<close>

definition slot_table_initialized :: "kernel \<Rightarrow> bool" where
  "slot_table_initialized k =
     (case mem k (Slot (cpu k)) of None \<Rightarrow> False | Some bs \<Rightarrow> length bs = MAX_EVENT_SIZE)"

subsection \<open>The caller's protocol: reserve, write, submit\<close>

text \<open>
  Modelled from the spec: one event of a caller, "Unreserved, Reserved, Submitted". The
  caller reserves a buffer for its payload, skips the event when reserve fails ("caller
  should skip emitting the event"), writes the payload and submits it with the same
  size. \<open>Fault\<close> is the write that does not fit the buffer.
\<close>

datatype emit_result = Skipped | Fault | Submitted long

definition emit_event ::
  "kernel helpers \<Rightarrow> ctx \<Rightarrow> map_ref \<Rightarrow> u8 list \<Rightarrow> kernel \<Rightarrow> emit_result \<times> kernel" where
  "emit_event K c m payload k =
     (case gadget_reserve_buf K m (of_nat (length payload)) k of
        (None, k1) \<Rightarrow> (Skipped, k1)
      | (Some r, k1) \<Rightarrow>
          (case write_buf (Some r) payload k1 of
             None \<Rightarrow> (Fault, k1)
           | Some k2 \<Rightarrow>
               (case gadget_submit_buf K c m (Some r) (of_nat (length payload)) k2 of
                  (st, k3) \<Rightarrow> (Submitted st, k3))))"

fun emit_all ::
  "kernel helpers \<Rightarrow> ctx \<Rightarrow> map_ref \<Rightarrow> u8 list list \<Rightarrow> kernel \<Rightarrow> emit_result list \<times> kernel" where
  "emit_all K c m [] k = ([], k)"
| "emit_all K c m (p # ps) k =
     (case emit_event K c m p k of
        (r, k1) \<Rightarrow> (case emit_all K c m ps k1 of (rs, k2) \<Rightarrow> (r # rs, k2)))"

text \<open>The payloads of the events that were submitted, in the order of the calls.\<close>

fun submitted_payloads :: "emit_result list \<Rightarrow> u8 list list \<Rightarrow> u8 list list" where
  "submitted_payloads (Submitted st # rs) (p # ps) = p # submitted_payloads rs ps"
| "submitted_payloads (r # rs) (p # ps) = submitted_payloads rs ps"
| "submitted_payloads rs ps = []"

subsection \<open>Concrete kernels of the specification's scenarios\<close>

text \<open>
  Slot mode, one CPU, the scratch slot of 10240 bytes, a secondary mechanism that
  accepts every event with status 0.
\<close>

definition slot_kernel :: kernel where
  "slot_kernel =
     \<lparr>cpu = 0,
      mem = [Slot 0 \<mapsto> replicate MAX_EVENT_SIZE 0],
      uninit = (\<lambda>i. 0),
      rings = Map.empty,
      perf_verdict = (\<lambda>m c bs. 0),
      perf_events = (\<lambda>x. [])\<rparr>"

text \<open>
  Queue mode, ring number 0 of the given capacity, nothing reserved yet; memory never
  written holds \<open>0xAB\<close>.
\<close>

definition queue_kernel :: "nat \<Rightarrow> kernel" where
  "queue_kernel cap =
     \<lparr>cpu = 0,
      mem = Map.empty,
      uninit = (\<lambda>i. 0xAB),
      rings = [0 \<mapsto> \<lparr>max_entries = cap, used = 0, next_id = 0, queue = []\<rparr>],
      perf_verdict = (\<lambda>m c bs. 0),
      perf_events = (\<lambda>x. [])\<rparr>"

text \<open>The queue kernel after a reservation of two bytes in ring 0: the record is live.\<close>

definition reserved_kernel :: "nat \<Rightarrow> kernel" where
  "reserved_kernel cap =
     \<lparr>cpu = 0,
      mem = [Record 0 0 \<mapsto> [0xAB, 0xAB]],
      uninit = (\<lambda>i. 0xAB),
      rings = [0 \<mapsto> \<lparr>max_entries = cap, used = 2, next_id = 1, queue = []\<rparr>],
      perf_verdict = (\<lambda>m c bs. 0),
      perf_events = (\<lambda>x. [])\<rparr>"

text \<open>
  A caller's program for one event, as \<open>emit_event\<close> does it: reserve, stop when there
  is no buffer, write the payload (a write that does not fit changes nothing), submit.
\<close>

definition one_event :: "ctx \<Rightarrow> map_ref \<Rightarrow> u8 list \<Rightarrow> kernel prog" where
  "one_event c m payload =
     Reserve m (of_nat (length payload))
       (\<lambda>buf. if buf = None then Halt
               else Caller (\<lambda>k. case write_buf buf payload k of None \<Rightarrow> k | Some k' \<Rightarrow> k')
                      (Submit c m buf (of_nat (length payload)) (\<lambda>st. Halt)))"

section \<open>Properties\<close>

subsection \<open>The two branches\<close>

lemma reserve_queue_branch:
  "bpf_core_type_exists_bpf_ringbuf K \<Longrightarrow>
     gadget_reserve_buf K m sz s = bpf_ringbuf_reserve K m sz 0 s"
  by (simp add: gadget_reserve_buf_def)

lemma reserve_slot_branch:
  "\<not> bpf_core_type_exists_bpf_ringbuf K \<Longrightarrow>
     gadget_reserve_buf K m sz s = bpf_map_lookup_elem K gadget_heap zero_key s"
  by (simp add: gadget_reserve_buf_def)

lemma submit_queue_branch:
  "bpf_core_type_exists_bpf_ringbuf K \<Longrightarrow>
     gadget_submit_buf K c m buf sz s = (0, bpf_ringbuf_submit K buf 0 s)"
  by (simp add: gadget_submit_buf_def)

lemma submit_slot_branch:
  "\<not> bpf_core_type_exists_bpf_ringbuf K \<Longrightarrow>
     gadget_submit_buf K c m buf sz s = bpf_perf_event_output K c m BPF_F_CURRENT_CPU buf sz s"
  by (simp add: gadget_submit_buf_def)

subsection \<open>The kernel model\<close>

lemma linux_simps:
  "bpf_core_type_exists_bpf_ringbuf (linux b) = b"
  "bpf_ringbuf_reserve (linux b) = kernel_ringbuf_reserve"
  "bpf_ringbuf_submit (linux b) = kernel_ringbuf_submit"
  "bpf_map_lookup_elem (linux b) = kernel_map_lookup_elem"
  "bpf_perf_event_output (linux b) = kernel_perf_event_output"
  by (simp_all add: linux_def)

lemma slot_lookup_initialized:
  assumes "slot_table_initialized k"
  shows "kernel_map_lookup_elem gadget_heap zero_key k = (Some (Slot (cpu k)), k)"
  using assms
  by (simp add: kernel_map_lookup_elem_def slot_table_initialized_def zero_key_def
      gadget_heap_max_entries_def split: option.splits)

lemma slot_cell:
  assumes "slot_table_initialized k"
  shows "\<exists>bs. mem k (Slot (cpu k)) = Some bs \<and> length bs = MAX_EVENT_SIZE"
  using assms by (simp add: slot_table_initialized_def split: option.splits)

lemma write_then_load:
  assumes "mem k r = Some bs" and "length data \<le> length bs"
  shows "write_buf (Some r) data k =
           Some (k\<lparr>mem := (mem k)(r \<mapsto> data @ drop (length data) bs)\<rparr>)"
    and "load (k\<lparr>mem := (mem k)(r \<mapsto> data @ drop (length data) bs)\<rparr>) (Some r) (length data) =
           Some data"
  using assms by (simp_all add: write_buf_def load_def)

lemma perf_output_loaded:
  assumes "load k buf (unat sz) = Some bs"
  shows "kernel_perf_event_output c m BPF_F_CURRENT_CPU buf sz k =
           (perf_verdict k m (cpu k) bs,
            if 0 \<le> sint (perf_verdict k m (cpu k) bs)
            then k\<lparr>perf_events := (perf_events k)((m, cpu k) := perf_events k (m, cpu k) @ [bs])\<rparr>
            else k)"
  using assms by (simp add: kernel_perf_event_output_def Let_def)

lemma slot_kernel_initialized: "slot_table_initialized slot_kernel"
  by (simp add: slot_table_initialized_def slot_kernel_def)

subsection \<open>Slot mode: reserve, write, submit\<close>

text \<open>
  C1. In slot mode (capability flag false), for every size up to \<open>MAX_EVENT_SIZE\<close>:
  reserve returns the slot, the caller's write of \<open>size\<close> bytes fits it, and submit with
  that region and size hands exactly the written bytes to \<open>bpf_perf_event_output\<close>: the
  status returned is the mechanism's verdict on those bytes, and an accepted event is
  recorded with those bytes, unmodified, for the map and the running CPU.
\<close>

theorem slot_reserve_write_submit_delivers:
  assumes "unat sz \<le> MAX_EVENT_SIZE" and "length data = unat sz"
    and "slot_table_initialized k"
  shows "\<exists>k2. gadget_reserve_buf (linux False) m sz k = (Some (Slot (cpu k)), k) \<and>
           write_buf (Some (Slot (cpu k))) data k = Some k2 \<and>
           load k2 (Some (Slot (cpu k))) (unat sz) = Some data \<and>
           gadget_submit_buf (linux False) c m (Some (Slot (cpu k))) sz k2 =
             (perf_verdict k m (cpu k) data,
              if 0 \<le> sint (perf_verdict k m (cpu k) data)
              then k2\<lparr>perf_events :=
                        (perf_events k)((m, cpu k) := perf_events k (m, cpu k) @ [data])\<rparr>
              else k2)"
proof -
  from assms(3) obtain bs where cell: "mem k (Slot (cpu k)) = Some bs"
    and len: "length bs = MAX_EVENT_SIZE"
    using slot_cell by blast
  let ?r = "Slot (cpu k)"
  let ?k2 = "k\<lparr>mem := (mem k)(?r \<mapsto> data @ drop (length data) bs)\<rparr>"
  have fits: "length data \<le> length bs"
    using assms(1,2) len by simp
  have res: "gadget_reserve_buf (linux False) m sz k = (Some ?r, k)"
    using slot_lookup_initialized [OF assms(3)]
    by (simp add: reserve_slot_branch linux_simps)
  have wr: "write_buf (Some ?r) data k = Some ?k2"
    by (rule write_then_load(1) [OF cell fits])
  have ld: "load ?k2 (Some ?r) (unat sz) = Some data"
    using write_then_load(2) [OF cell fits] assms(2) by simp
  have sub: "gadget_submit_buf (linux False) c m (Some ?r) sz ?k2 =
      (perf_verdict k m (cpu k) data,
       if 0 \<le> sint (perf_verdict k m (cpu k) data)
       then ?k2\<lparr>perf_events :=
                  (perf_events k)((m, cpu k) := perf_events k (m, cpu k) @ [data])\<rparr>
       else ?k2)"
    using perf_output_loaded [OF ld, of c m]
    by (simp add: submit_slot_branch linux_simps)
  from res wr ld sub show ?thesis by blast
qed

text \<open>
  The scenario of the specification: slot mode, a request of 64 bytes, 64 bytes of
  \<open>0xAB\<close> written, the mechanism accepting with status 0.
\<close>

theorem slot_reserve_write_submit_delivers_witness:
  "unat (64 :: u64) \<le> MAX_EVENT_SIZE \<and>
   length (replicate 64 (0xAB :: u8)) = unat (64 :: u64) \<and>
   slot_table_initialized slot_kernel \<and>
   (\<exists>k2. gadget_reserve_buf (linux False) (tracer_map 0) 64 slot_kernel =
            (Some (Slot (cpu slot_kernel)), slot_kernel) \<and>
          write_buf (Some (Slot (cpu slot_kernel))) (replicate 64 0xAB) slot_kernel = Some k2 \<and>
          load k2 (Some (Slot (cpu slot_kernel))) (unat (64 :: u64)) = Some (replicate 64 0xAB) \<and>
          fst (gadget_submit_buf (linux False) 7 (tracer_map 0)
                 (Some (Slot (cpu slot_kernel))) 64 k2) = 0 \<and>
          perf_events (snd (gadget_submit_buf (linux False) 7 (tracer_map 0)
                 (Some (Slot (cpu slot_kernel))) 64 k2)) (tracer_map 0, 0) =
            [replicate 64 0xAB])"
proof -
  have h1: "unat (64 :: u64) \<le> MAX_EVENT_SIZE"
    by (simp add: MAX_EVENT_SIZE_def)
  have h2: "length (replicate 64 (0xAB :: u8)) = unat (64 :: u64)"
    by simp
  have v: "perf_verdict slot_kernel (tracer_map 0) (cpu slot_kernel) (replicate 64 0xAB) = 0"
    by (simp add: slot_kernel_def)
  have e: "perf_events slot_kernel (tracer_map 0, cpu slot_kernel) = []"
    and c: "cpu slot_kernel = 0"
    by (simp_all add: slot_kernel_def)
  from slot_reserve_write_submit_delivers
    [where c = 7 and m = "tracer_map 0", OF h1 h2 slot_kernel_initialized]
  obtain k2 where
    "gadget_reserve_buf (linux False) (tracer_map 0) 64 slot_kernel =
       (Some (Slot (cpu slot_kernel)), slot_kernel)"
    "write_buf (Some (Slot (cpu slot_kernel))) (replicate 64 0xAB) slot_kernel = Some k2"
    "load k2 (Some (Slot (cpu slot_kernel))) (unat (64 :: u64)) = Some (replicate 64 0xAB)"
    "gadget_submit_buf (linux False) 7 (tracer_map 0) (Some (Slot (cpu slot_kernel))) 64 k2 =
       (0, k2\<lparr>perf_events := (perf_events slot_kernel)
                 ((tracer_map 0, cpu slot_kernel) := [replicate 64 0xAB])\<rparr>)"
    unfolding v e by auto
  with h1 h2 slot_kernel_initialized c show ?thesis
    by auto
qed

subsection \<open>Queue mode: reserve\<close>

lemma ringbuf_reserve_some:
  assumes "kernel_ringbuf_reserve m sz flags k = (Some r, k1)"
  shows "\<exists>i rb. m = tracer_map i \<and> rings k i = Some rb \<and>
           used rb + unat sz \<le> max_entries rb \<and> r = Record i (next_id rb) \<and>
           k1 = k\<lparr>mem := (mem k)(Record i (next_id rb) \<mapsto>
                          map (uninit k) [used rb ..< used rb + unat sz]),
                   rings := (rings k)(i \<mapsto> rb\<lparr>used := used rb + unat sz,
                                              next_id := Suc (next_id rb)\<rparr>)\<rparr>"
  using assms
  by (auto simp: kernel_ringbuf_reserve_def split: map_ref.splits option.splits if_splits)

lemma ringbuf_reserve_none:
  assumes "kernel_ringbuf_reserve m sz flags k = (None, k1)"
  shows "k1 = k"
  using assms
  by (auto simp: kernel_ringbuf_reserve_def split: map_ref.splits option.splits if_splits)

lemma ringbuf_reserve_full:
  assumes "rings k i = Some rb" and "max_entries rb < used rb + unat sz"
  shows "kernel_ringbuf_reserve (tracer_map i) sz flags k = (None, k)"
  using assms by (simp add: kernel_ringbuf_reserve_def)

lemma ringbuf_reserve_fits:
  assumes "rings k i = Some rb" and "used rb + unat sz \<le> max_entries rb"
  shows "kernel_ringbuf_reserve (tracer_map i) sz flags k =
           (Some (Record i (next_id rb)),
            k\<lparr>mem := (mem k)(Record i (next_id rb) \<mapsto>
                          map (uninit k) [used rb ..< used rb + unat sz]),
              rings := (rings k)(i \<mapsto> rb\<lparr>used := used rb + unat sz,
                                         next_id := Suc (next_id rb)\<rparr>)\<rparr>)"
  using assms by (simp add: kernel_ringbuf_reserve_def)

lemma ringbuf_submit_live:
  assumes "rings k i = Some rb" and "mem k (Record i n) = Some bs"
  shows "kernel_ringbuf_submit (Some (Record i n)) flags k =
           k\<lparr>mem := (mem k)(Record i n := None),
             rings := (rings k)(i \<mapsto> rb\<lparr>queue := queue rb @ [bs]\<rparr>)\<rparr>"
  using assms by (simp add: kernel_ringbuf_submit_def)

lemma queue_kernel_reserve_two:
  assumes "2 \<le> cap"
  shows "gadget_reserve_buf (linux True) (tracer_map 0) 2 (queue_kernel cap) =
           (Some (Record 0 0), reserved_kernel cap)"
  using assms
  by (simp add: reserve_queue_branch linux_simps kernel_ringbuf_reserve_def queue_kernel_def
      reserved_kernel_def upt_rec)
    (simp add: numeral_2_eq_2)

lemma not_zeroed: "[0xAB, 0xAB] \<noteq> replicate n (0 :: u8)"
proof
  assume "[0xAB, 0xAB] = replicate n (0 :: u8)"
  then have "(0xAB :: u8) \<in> set (replicate n 0)"
    by (metis list.set_intros(1))
  then show False
    by simp
qed

text \<open>
  C2. In queue mode (capability flag true), for every size, reserve is one request to
  \<open>bpf_ringbuf_reserve\<close> for exactly \<open>size\<close> bytes with flags 0, whatever the helper does.
  In the kernel model a successful reserve returns a region of at least \<open>size\<close> bytes
  that takes, and gives back, any write of up to \<open>size\<close> bytes; its first contents are
  what the ring's memory held, and there are reservations whose region is not zeroed.
\<close>

theorem queue_reserve_exact_size:
  "(bpf_core_type_exists_bpf_ringbuf K \<longrightarrow>
      gadget_reserve_buf K m sz s = bpf_ringbuf_reserve K m sz 0 s) \<and>
   (gadget_reserve_buf (linux True) m' sz' k = (Some r, k1) \<longrightarrow>
      (\<exists>bs. mem k1 r = Some bs \<and> unat sz' \<le> length bs \<and>
         (\<forall>data. length data \<le> unat sz' \<longrightarrow>
            (\<exists>k2. write_buf (Some r) data k1 = Some k2 \<and>
                   load k2 (Some r) (length data) = Some data)))) \<and>
   (\<exists>k0 m0 sz0 r0 k' bs. gadget_reserve_buf (linux True) m0 sz0 k0 = (Some r0, k') \<and>
      mem k' r0 = Some bs \<and> bs \<noteq> replicate (unat sz0) 0)"
proof (intro conjI impI)
  assume "bpf_core_type_exists_bpf_ringbuf K"
  then show "gadget_reserve_buf K m sz s = bpf_ringbuf_reserve K m sz 0 s"
    by (rule reserve_queue_branch)
next
  assume "gadget_reserve_buf (linux True) m' sz' k = (Some r, k1)"
  then have "kernel_ringbuf_reserve m' sz' 0 k = (Some r, k1)"
    by (simp add: reserve_queue_branch linux_simps)
  from ringbuf_reserve_some [OF this] obtain i rb
    where r: "r = Record i (next_id rb)"
      and k1: "k1 = k\<lparr>mem := (mem k)(Record i (next_id rb) \<mapsto>
                           map (uninit k) [used rb ..< used rb + unat sz']),
                    rings := (rings k)(i \<mapsto> rb\<lparr>used := used rb + unat sz',
                                               next_id := Suc (next_id rb)\<rparr>)\<rparr>"
    by blast
  have cell: "mem k1 r = Some (map (uninit k) [used rb ..< used rb + unat sz'])"
    by (simp add: r k1)
  let ?bs = "map (uninit k) [used rb ..< used rb + unat sz']"
  have len: "length ?bs = unat sz'"
    by simp
  have "\<exists>k2. write_buf (Some r) data k1 = Some k2 \<and> load k2 (Some r) (length data) = Some data"
    if "length data \<le> unat sz'" for data
    using write_then_load [OF cell, of data] that len by simp
  with cell len
  show "\<exists>bs. mem k1 r = Some bs \<and> unat sz' \<le> length bs \<and>
         (\<forall>data. length data \<le> unat sz' \<longrightarrow>
            (\<exists>k2. write_buf (Some r) data k1 = Some k2 \<and>
                   load k2 (Some r) (length data) = Some data))"
    by (metis order_refl)
next
  have "gadget_reserve_buf (linux True) (tracer_map 0) 2 (queue_kernel 4096) =
          (Some (Record 0 0), reserved_kernel 4096)"
    by (simp add: queue_kernel_reserve_two)
  moreover have "mem (reserved_kernel 4096) (Record 0 0) = Some [0xAB, 0xAB]"
    by (simp add: reserved_kernel_def)
  moreover have "[0xAB, 0xAB] \<noteq> replicate (unat (2 :: u64)) (0 :: u8)"
    by (rule not_zeroed)
  ultimately show "\<exists>k0 m0 sz0 r0 k' bs.
      gadget_reserve_buf (linux True) m0 sz0 k0 = (Some r0, k') \<and>
      mem k' r0 = Some bs \<and> bs \<noteq> replicate (unat sz0) 0"
    by blast
qed

theorem queue_reserve_exact_size_witness:
  "bpf_core_type_exists_bpf_ringbuf (linux True) \<and>
   gadget_reserve_buf (linux True) (tracer_map 0) 2 (queue_kernel 4096) =
     (Some (Record 0 0), reserved_kernel 4096) \<and>
   gadget_reserve_buf (linux True) (tracer_map 0) 2 (queue_kernel 4096) =
     bpf_ringbuf_reserve (linux True) (tracer_map 0) 2 0 (queue_kernel 4096) \<and>
   (\<exists>bs. mem (reserved_kernel 4096) (Record 0 0) = Some bs \<and> unat (2 :: u64) \<le> length bs \<and>
      (\<exists>k2. write_buf (Some (Record 0 0)) [1, 2] (reserved_kernel 4096) = Some k2 \<and>
             load k2 (Some (Record 0 0)) (length [1, 2 :: u8]) = Some [1, 2]))"
proof -
  have h1: "bpf_core_type_exists_bpf_ringbuf (linux True)"
    by (simp add: linux_simps)
  have h2: "gadget_reserve_buf (linux True) (tracer_map 0) 2 (queue_kernel 4096) =
      (Some (Record 0 0), reserved_kernel 4096)"
    by (simp add: queue_kernel_reserve_two)
  have h3: "length [1, 2 :: u8] \<le> unat (2 :: u64)"
    by simp
  note t = queue_reserve_exact_size
    [where K = "linux True" and m = "tracer_map 0" and sz = 2 and s = "queue_kernel 4096"
       and m' = "tracer_map 0" and sz' = 2 and k = "queue_kernel 4096"
       and r = "Record 0 0" and ?k1.0 = "reserved_kernel 4096"]
  from t h1 have a: "gadget_reserve_buf (linux True) (tracer_map 0) 2 (queue_kernel 4096) =
      bpf_ringbuf_reserve (linux True) (tracer_map 0) 2 0 (queue_kernel 4096)"
    by blast
  from t h2 obtain bs where b: "mem (reserved_kernel 4096) (Record 0 0) = Some bs"
    "unat (2 :: u64) \<le> length bs"
    "\<forall>data. length data \<le> unat (2 :: u64) \<longrightarrow>
       (\<exists>k2. write_buf (Some (Record 0 0)) data (reserved_kernel 4096) = Some k2 \<and>
              load k2 (Some (Record 0 0)) (length data) = Some data)"
    by blast
  from b(3) h3 have "\<exists>k2. write_buf (Some (Record 0 0)) [1, 2] (reserved_kernel 4096) = Some k2 \<and>
      load k2 (Some (Record 0 0)) (length [1, 2 :: u8]) = Some [1, 2]"
    by blast
  with h1 h2 a b(1,2) show ?thesis
    by blast
qed

subsection \<open>Slot mode: reserve\<close>

text \<open>
  C3. In slot mode (capability flag false), for sizes up to \<open>MAX_EVENT_SIZE\<close>: reserve is
  the lookup of key 0 in \<open>gadget_heap\<close>, whatever map and size were asked for; in the
  kernel model it returns the cell of the running CPU (when the table has one) and
  leaves the state as it was, so a second reservation, of any other size, returns the
  same region.
\<close>

theorem slot_reserve_same_region:
  assumes "unat sz \<le> MAX_EVENT_SIZE" and "unat sz' \<le> MAX_EVENT_SIZE"
  shows "(\<not> bpf_core_type_exists_bpf_ringbuf K \<longrightarrow>
            gadget_reserve_buf K m sz s = bpf_map_lookup_elem K gadget_heap zero_key s) \<and>
         gadget_reserve_buf (linux False) m sz k =
           (if mem k (Slot (cpu k)) = None then None else Some (Slot (cpu k)), k) \<and>
         gadget_reserve_buf (linux False) m' sz'
             (snd (gadget_reserve_buf (linux False) m sz k)) =
           gadget_reserve_buf (linux False) m sz k"
  by (simp add: gadget_reserve_buf_def linux_simps kernel_map_lookup_elem_def zero_key_def
      gadget_heap_max_entries_def)

theorem slot_reserve_same_region_witness:
  "unat (64 :: u64) \<le> MAX_EVENT_SIZE \<and> unat (100 :: u64) \<le> MAX_EVENT_SIZE \<and>
   \<not> bpf_core_type_exists_bpf_ringbuf (linux False) \<and>
   gadget_reserve_buf (linux False) (tracer_map 0) 64 slot_kernel =
     bpf_map_lookup_elem (linux False) gadget_heap zero_key slot_kernel \<and>
   gadget_reserve_buf (linux False) (tracer_map 0) 64 slot_kernel =
     (Some (Slot 0), slot_kernel) \<and>
   gadget_reserve_buf (linux False) (tracer_map 1) 100
       (snd (gadget_reserve_buf (linux False) (tracer_map 0) 64 slot_kernel)) =
     (Some (Slot 0), slot_kernel)"
proof -
  have h1: "unat (64 :: u64) \<le> MAX_EVENT_SIZE" and h2: "unat (100 :: u64) \<le> MAX_EVENT_SIZE"
    by (simp_all add: MAX_EVENT_SIZE_def)
  have h3: "\<not> bpf_core_type_exists_bpf_ringbuf (linux False)"
    by (simp add: linux_simps)
  have c: "cpu slot_kernel = 0" and m: "mem slot_kernel (Slot 0) \<noteq> None"
    by (simp_all add: slot_kernel_def)
  note t = slot_reserve_same_region
    [OF h1 h2, where K = "linux False" and m = "tracer_map 0" and s = slot_kernel
       and k = slot_kernel and m' = "tracer_map 1"]
  from t h3 have a: "gadget_reserve_buf (linux False) (tracer_map 0) 64 slot_kernel =
      bpf_map_lookup_elem (linux False) gadget_heap zero_key slot_kernel"
    by blast
  from t have "gadget_reserve_buf (linux False) (tracer_map 0) 64 slot_kernel =
      (if mem slot_kernel (Slot (cpu slot_kernel)) = None then None
       else Some (Slot (cpu slot_kernel)), slot_kernel)"
    by blast
  with c m have b: "gadget_reserve_buf (linux False) (tracer_map 0) 64 slot_kernel =
      (Some (Slot 0), slot_kernel)"
    by simp
  from t have "gadget_reserve_buf (linux False) (tracer_map 1) 100
      (snd (gadget_reserve_buf (linux False) (tracer_map 0) 64 slot_kernel)) =
      gadget_reserve_buf (linux False) (tracer_map 0) 64 slot_kernel"
    by blast
  with b have d: "gadget_reserve_buf (linux False) (tracer_map 1) 100
      (snd (gadget_reserve_buf (linux False) (tracer_map 0) 64 slot_kernel)) =
      (Some (Slot 0), slot_kernel)"
    by simp
  from h1 h2 h3 a b d show ?thesis
    by blast
qed

text \<open>
  C9. Slot-mode reserve has no size check: whatever the helpers do, its result does not
  depend on the size (or the map) asked for. In the kernel model, with the slot table
  initialised, it returns the cell of the running CPU for every size, also beyond
  \<open>MAX_EVENT_SIZE\<close>; that cell has 10240 bytes; the result is never \<open>NULL\<close>.
\<close>

theorem slot_reserve_no_size_check:
  assumes "slot_table_initialized k"
  shows "(\<not> bpf_core_type_exists_bpf_ringbuf K \<longrightarrow>
            gadget_reserve_buf K m sz s = gadget_reserve_buf K m' sz' s) \<and>
         gadget_reserve_buf (linux False) m sz k = (Some (Slot (cpu k)), k) \<and>
         fst (gadget_reserve_buf (linux False) m sz k) \<noteq> None \<and>
         (\<exists>bs. mem k (Slot (cpu k)) = Some bs \<and> length bs = 10240)"
proof -
  have "gadget_reserve_buf (linux False) m sz k = (Some (Slot (cpu k)), k)"
    using slot_lookup_initialized [OF assms]
    by (simp add: reserve_slot_branch linux_simps)
  moreover have "\<exists>bs. mem k (Slot (cpu k)) = Some bs \<and> length bs = 10240"
    using slot_cell [OF assms] by (simp add: MAX_EVENT_SIZE_def)
  ultimately show ?thesis
    by (simp add: reserve_slot_branch)
qed

theorem slot_reserve_no_size_check_witness:
  "slot_table_initialized slot_kernel \<and> MAX_EVENT_SIZE < unat (20000 :: u64) \<and>
   \<not> bpf_core_type_exists_bpf_ringbuf (linux False) \<and>
   gadget_reserve_buf (linux False) (tracer_map 0) 20000 slot_kernel =
     gadget_reserve_buf (linux False) (tracer_map 1) 64 slot_kernel \<and>
   gadget_reserve_buf (linux False) (tracer_map 0) 20000 slot_kernel =
     (Some (Slot 0), slot_kernel) \<and>
   (\<exists>bs. mem slot_kernel (Slot 0) = Some bs \<and> length bs = 10240)"
proof -
  have big: "MAX_EVENT_SIZE < unat (20000 :: u64)"
    by (simp add: MAX_EVENT_SIZE_def)
  have h: "\<not> bpf_core_type_exists_bpf_ringbuf (linux False)"
    by (simp add: linux_simps)
  have c: "cpu slot_kernel = 0"
    by (simp add: slot_kernel_def)
  note t = slot_reserve_no_size_check
    [OF slot_kernel_initialized, where K = "linux False" and m = "tracer_map 0"
       and sz = 20000 and s = slot_kernel and m' = "tracer_map 1" and sz' = 64]
  from t h have a: "gadget_reserve_buf (linux False) (tracer_map 0) 20000 slot_kernel =
      gadget_reserve_buf (linux False) (tracer_map 1) 64 slot_kernel"
    by blast
  from t have "gadget_reserve_buf (linux False) (tracer_map 0) 20000 slot_kernel =
      (Some (Slot (cpu slot_kernel)), slot_kernel)"
    by blast
  then have b: "gadget_reserve_buf (linux False) (tracer_map 0) 20000 slot_kernel =
      (Some (Slot 0), slot_kernel)"
    by (simp add: c)
  from t have "\<exists>bs. mem slot_kernel (Slot (cpu slot_kernel)) = Some bs \<and> length bs = 10240"
    by blast
  then have d: "\<exists>bs. mem slot_kernel (Slot 0) = Some bs \<and> length bs = 10240"
    by (simp add: c)
  from slot_kernel_initialized big h a b d show ?thesis
    by blast
qed

subsection \<open>Submit\<close>

text \<open>
  C4. In queue mode (capability flag true), submit hands the buffer to
  \<open>bpf_ringbuf_submit\<close> with flags 0 and returns 0, for every input and whatever the
  helper does. In the kernel model, a live record of a ring is thereby appended to the
  ring's queue with the contents it has, and the handle is consumed.
\<close>

theorem queue_submit_returns_zero:
  "(bpf_core_type_exists_bpf_ringbuf K \<longrightarrow>
      gadget_submit_buf K c m buf sz s = (0, bpf_ringbuf_submit K buf 0 s)) \<and>
   (rings k i = Some rb \<and> mem k (Record i n) = Some bs \<longrightarrow>
      gadget_submit_buf (linux True) c' m' (Some (Record i n)) sz' k =
        (0, k\<lparr>mem := (mem k)(Record i n := None),
               rings := (rings k)(i \<mapsto> rb\<lparr>queue := queue rb @ [bs]\<rparr>)\<rparr>))"
  by (simp add: submit_queue_branch linux_simps ringbuf_submit_live)

theorem queue_submit_returns_zero_witness:
  "bpf_core_type_exists_bpf_ringbuf (linux True) \<and>
   rings (reserved_kernel 4096) 0 =
     Some \<lparr>max_entries = 4096, used = 2, next_id = 1, queue = []\<rparr> \<and>
   mem (reserved_kernel 4096) (Record 0 0) = Some [0xAB, 0xAB] \<and>
   gadget_submit_buf (linux True) 7 (tracer_map 0) (Some (Record 0 0)) 2 (reserved_kernel 4096) =
     (0, bpf_ringbuf_submit (linux True) (Some (Record 0 0)) 0 (reserved_kernel 4096)) \<and>
   fst (gadget_submit_buf (linux True) 7 (tracer_map 0) (Some (Record 0 0)) 2
          (reserved_kernel 4096)) = 0 \<and>
   rings (snd (gadget_submit_buf (linux True) 7 (tracer_map 0) (Some (Record 0 0)) 2
                 (reserved_kernel 4096))) 0 =
     Some \<lparr>max_entries = 4096, used = 2, next_id = 1, queue = [[0xAB, 0xAB]]\<rparr>"
proof -
  have h1: "bpf_core_type_exists_bpf_ringbuf (linux True)"
    by (simp add: linux_simps)
  have h2: "rings (reserved_kernel 4096) 0 =
      Some \<lparr>max_entries = 4096, used = 2, next_id = 1, queue = []\<rparr>"
    and h3: "mem (reserved_kernel 4096) (Record 0 0) = Some [0xAB, 0xAB]"
    by (simp_all add: reserved_kernel_def)
  note t = queue_submit_returns_zero
    [where K = "linux True" and c = 7 and m = "tracer_map 0" and buf = "Some (Record 0 0)"
       and sz = 2 and s = "reserved_kernel 4096" and k = "reserved_kernel 4096" and i = 0
       and rb = "\<lparr>max_entries = 4096, used = 2, next_id = 1, queue = []\<rparr>" and n = 0
       and bs = "[0xAB, 0xAB]" and c' = 7 and m' = "tracer_map 0" and sz' = 2]
  from t h1 have a: "gadget_submit_buf (linux True) 7 (tracer_map 0) (Some (Record 0 0)) 2
      (reserved_kernel 4096) =
      (0, bpf_ringbuf_submit (linux True) (Some (Record 0 0)) 0 (reserved_kernel 4096))"
    by blast
  from t h2 h3 have b: "gadget_submit_buf (linux True) 7 (tracer_map 0) (Some (Record 0 0)) 2
      (reserved_kernel 4096) =
      (0, (reserved_kernel 4096)\<lparr>mem := (mem (reserved_kernel 4096))(Record 0 0 := None),
             rings := (rings (reserved_kernel 4096))
               (0 \<mapsto> \<lparr>max_entries = 4096, used = 2, next_id = 1, queue = []\<rparr>
                        \<lparr>queue := queue \<lparr>max_entries = 4096, used = 2, next_id = 1, queue = []\<rparr>
                                   @ [[0xAB, 0xAB]]\<rparr>)\<rparr>)"
    by blast
  have d: "fst (gadget_submit_buf (linux True) 7 (tracer_map 0) (Some (Record 0 0)) 2
      (reserved_kernel 4096)) = 0"
    by (simp add: b)
  have e: "rings (snd (gadget_submit_buf (linux True) 7 (tracer_map 0) (Some (Record 0 0)) 2
      (reserved_kernel 4096))) 0 =
      Some \<lparr>max_entries = 4096, used = 2, next_id = 1, queue = [[0xAB, 0xAB]]\<rparr>"
    by (simp add: b)
  from h1 h2 h3 a d e show ?thesis
    by blast
qed

text \<open>
  C5. In slot mode (capability flag false), submit is the call
  \<open>bpf_perf_event_output(ctx, map, BPF_F_CURRENT_CPU, buf, size)\<close> and returns its status
  and state unchanged, whatever the helper does. In the kernel model the mechanism gets
  exactly the \<open>size\<close> bytes at \<open>buf\<close>: the status is its verdict on them, and when the
  status is not negative they are recorded for the map and the running CPU.
\<close>

theorem slot_submit_relays_status:
  "(\<not> bpf_core_type_exists_bpf_ringbuf K \<longrightarrow>
      gadget_submit_buf K c m buf sz s =
        bpf_perf_event_output K c m BPF_F_CURRENT_CPU buf sz s) \<and>
   (load k buf' (unat sz') = Some bs \<longrightarrow>
      length bs = unat sz' \<and>
      gadget_submit_buf (linux False) c' m' buf' sz' k =
        (perf_verdict k m' (cpu k) bs,
         if 0 \<le> sint (perf_verdict k m' (cpu k) bs)
         then k\<lparr>perf_events :=
                  (perf_events k)((m', cpu k) := perf_events k (m', cpu k) @ [bs])\<rparr>
         else k))"
proof (intro conjI impI)
  assume "\<not> bpf_core_type_exists_bpf_ringbuf K"
  then show "gadget_submit_buf K c m buf sz s =
      bpf_perf_event_output K c m BPF_F_CURRENT_CPU buf sz s"
    by (rule submit_slot_branch)
next
  assume "load k buf' (unat sz') = Some bs"
  then show "length bs = unat sz'"
    by (auto simp: load_def split: option.splits if_splits)
next
  assume "load k buf' (unat sz') = Some bs"
  then show "gadget_submit_buf (linux False) c' m' buf' sz' k =
      (perf_verdict k m' (cpu k) bs,
       if 0 \<le> sint (perf_verdict k m' (cpu k) bs)
       then k\<lparr>perf_events :=
                (perf_events k)((m', cpu k) := perf_events k (m', cpu k) @ [bs])\<rparr>
       else k)"
    by (simp add: submit_slot_branch linux_simps perf_output_loaded)
qed

theorem slot_submit_relays_status_witness:
  "\<not> bpf_core_type_exists_bpf_ringbuf (linux False) \<and>
   load slot_kernel (Some (Slot 0)) (unat (2 :: u64)) = Some (replicate 2 0) \<and>
   gadget_submit_buf (linux False) 7 (tracer_map 0) (Some (Slot 0)) 2 slot_kernel =
     bpf_perf_event_output (linux False) 7 (tracer_map 0) BPF_F_CURRENT_CPU (Some (Slot 0)) 2
       slot_kernel \<and>
   length (replicate 2 (0 :: u8)) = unat (2 :: u64) \<and>
   fst (gadget_submit_buf (linux False) 7 (tracer_map 0) (Some (Slot 0)) 2 slot_kernel) = 0 \<and>
   perf_events
     (snd (gadget_submit_buf (linux False) 7 (tracer_map 0) (Some (Slot 0)) 2 slot_kernel))
     (tracer_map 0, 0) = [replicate 2 0]"
proof -
  have h1: "\<not> bpf_core_type_exists_bpf_ringbuf (linux False)"
    by (simp add: linux_simps)
  have h2: "load slot_kernel (Some (Slot 0)) (unat (2 :: u64)) = Some (replicate 2 0)"
    by (simp add: load_def slot_kernel_def MAX_EVENT_SIZE_def)
  have v: "perf_verdict slot_kernel (tracer_map 0) (cpu slot_kernel) (replicate 2 0) = 0"
    and e: "perf_events slot_kernel (tracer_map 0, cpu slot_kernel) = []"
    and c: "cpu slot_kernel = 0"
    by (simp_all add: slot_kernel_def)
  note t = slot_submit_relays_status
    [where K = "linux False" and c = 7 and m = "tracer_map 0" and buf = "Some (Slot 0)"
       and sz = 2 and s = slot_kernel and k = slot_kernel and buf' = "Some (Slot 0)"
       and sz' = 2 and bs = "replicate 2 0" and c' = 7 and m' = "tracer_map 0"]
  from t h1 have a: "gadget_submit_buf (linux False) 7 (tracer_map 0) (Some (Slot 0)) 2
      slot_kernel =
      bpf_perf_event_output (linux False) 7 (tracer_map 0) BPF_F_CURRENT_CPU (Some (Slot 0)) 2
        slot_kernel"
    by blast
  from t h2 have b: "length (replicate 2 (0 :: u8)) = unat (2 :: u64)"
    by blast
  from t h2 have "gadget_submit_buf (linux False) 7 (tracer_map 0) (Some (Slot 0)) 2
      slot_kernel =
      (perf_verdict slot_kernel (tracer_map 0) (cpu slot_kernel) (replicate 2 0),
       if 0 \<le> sint (perf_verdict slot_kernel (tracer_map 0) (cpu slot_kernel) (replicate 2 0))
       then slot_kernel\<lparr>perf_events := (perf_events slot_kernel)
              ((tracer_map 0, cpu slot_kernel) :=
                 perf_events slot_kernel (tracer_map 0, cpu slot_kernel) @ [replicate 2 0])\<rparr>
       else slot_kernel)"
    by blast
  then have d: "gadget_submit_buf (linux False) 7 (tracer_map 0) (Some (Slot 0)) 2 slot_kernel =
      (0, slot_kernel\<lparr>perf_events := (perf_events slot_kernel)
             ((tracer_map 0, 0) := [replicate 2 0])\<rparr>)"
    unfolding v e by (simp add: c)
  have f: "fst (gadget_submit_buf (linux False) 7 (tracer_map 0) (Some (Slot 0)) 2
      slot_kernel) = 0"
    and g: "perf_events
      (snd (gadget_submit_buf (linux False) 7 (tracer_map 0) (Some (Slot 0)) 2 slot_kernel))
      (tracer_map 0, 0) = [replicate 2 0]"
    by (simp_all add: d)
  from h1 h2 a b f g show ?thesis
    by blast
qed

text \<open>
  C10. In queue mode, submit does not look at the context, the map or the size: two
  calls with the same buffer on the same state return the same status and the same
  state, whatever those three arguments are and whatever the helpers do.
\<close>

theorem queue_submit_ignores_ctx_map_size:
  assumes "bpf_core_type_exists_bpf_ringbuf K"
  shows "gadget_submit_buf K c m buf sz s = gadget_submit_buf K c' m' buf sz' s"
  using assms by (simp add: gadget_submit_buf_def)

theorem queue_submit_ignores_ctx_map_size_witness:
  "bpf_core_type_exists_bpf_ringbuf (linux True) \<and>
   gadget_submit_buf (linux True) 7 (tracer_map 0) (Some (Record 0 0)) 2 (reserved_kernel 4096) =
     gadget_submit_buf (linux True) 9 gadget_heap (Some (Record 0 0)) 5000 (reserved_kernel 4096)"
proof -
  have h: "bpf_core_type_exists_bpf_ringbuf (linux True)"
    by (simp add: linux_simps)
  from queue_submit_ignores_ctx_map_size [OF h] h show ?thesis
    by blast
qed

subsection \<open>Queue mode: no capacity\<close>

text \<open>
  C6. In queue mode, when \<open>bpf_ringbuf_reserve\<close> yields no record, reserve returns \<open>NULL\<close>
  together with the state that one call of the helper left: the header calls it once and
  does nothing else. In the kernel model a ring without room for \<open>size\<close> bytes makes
  reserve return \<open>NULL\<close>, and every reserve that returns \<open>NULL\<close> leaves the whole state,
  hence the channel and everything delivered so far, as it was.
\<close>

theorem queue_reserve_exhausted:
  "(bpf_core_type_exists_bpf_ringbuf K \<and> fst (bpf_ringbuf_reserve K m sz 0 s) = None \<longrightarrow>
      gadget_reserve_buf K m sz s = (None, snd (bpf_ringbuf_reserve K m sz 0 s))) \<and>
   (rings k i = Some rb \<and> max_entries rb < used rb + unat sz' \<longrightarrow>
      gadget_reserve_buf (linux True) (tracer_map i) sz' k = (None, k)) \<and>
   (fst (gadget_reserve_buf (linux True) m' sz' k) = None \<longrightarrow>
      gadget_reserve_buf (linux True) m' sz' k = (None, k))"
proof (intro conjI impI)
  assume "bpf_core_type_exists_bpf_ringbuf K \<and> fst (bpf_ringbuf_reserve K m sz 0 s) = None"
  then show "gadget_reserve_buf K m sz s = (None, snd (bpf_ringbuf_reserve K m sz 0 s))"
    by (simp add: reserve_queue_branch prod_eq_iff)
next
  assume "rings k i = Some rb \<and> max_entries rb < used rb + unat sz'"
  then show "gadget_reserve_buf (linux True) (tracer_map i) sz' k = (None, k)"
    by (simp add: reserve_queue_branch linux_simps ringbuf_reserve_full)
next
  assume "fst (gadget_reserve_buf (linux True) m' sz' k) = None"
  then have "fst (kernel_ringbuf_reserve m' sz' 0 k) = None"
    by (simp add: reserve_queue_branch linux_simps)
  then have "kernel_ringbuf_reserve m' sz' 0 k = (None, k)"
    using ringbuf_reserve_none [of m' sz' 0 k "snd (kernel_ringbuf_reserve m' sz' 0 k)"]
    by (simp add: prod_eq_iff)
  then show "gadget_reserve_buf (linux True) m' sz' k = (None, k)"
    by (simp add: reserve_queue_branch linux_simps)
qed

text \<open>The scenario of the specification: a ring of 100 bytes, a request of 200.\<close>

theorem queue_reserve_exhausted_witness:
  "bpf_core_type_exists_bpf_ringbuf (linux True) \<and>
   rings (queue_kernel 100) 0 =
     Some \<lparr>max_entries = 100, used = 0, next_id = 0, queue = []\<rparr> \<and>
   max_entries \<lparr>max_entries = 100, used = 0, next_id = 0, queue = []\<rparr> <
     used \<lparr>max_entries = 100, used = 0, next_id = 0, queue = []\<rparr> + unat (200 :: u64) \<and>
   fst (bpf_ringbuf_reserve (linux True) (tracer_map 0) 200 0 (queue_kernel 100)) = None \<and>
   fst (gadget_reserve_buf (linux True) (tracer_map 0) 200 (queue_kernel 100)) = None \<and>
   gadget_reserve_buf (linux True) (tracer_map 0) 200 (queue_kernel 100) =
     (None, snd (bpf_ringbuf_reserve (linux True) (tracer_map 0) 200 0 (queue_kernel 100))) \<and>
   gadget_reserve_buf (linux True) (tracer_map 0) 200 (queue_kernel 100) =
     (None, queue_kernel 100)"
proof -
  have h1: "bpf_core_type_exists_bpf_ringbuf (linux True)"
    by (simp add: linux_simps)
  have h2: "rings (queue_kernel 100) 0 =
      Some \<lparr>max_entries = 100, used = 0, next_id = 0, queue = []\<rparr>"
    by (simp add: queue_kernel_def)
  have h3: "max_entries \<lparr>max_entries = 100, used = 0, next_id = 0, queue = []\<rparr> <
      used \<lparr>max_entries = 100, used = 0, next_id = 0, queue = []\<rparr> + unat (200 :: u64)"
    by simp
  note t = queue_reserve_exhausted
    [where K = "linux True" and m = "tracer_map 0" and sz = 200 and s = "queue_kernel 100"
       and k = "queue_kernel 100" and i = 0 and sz' = 200 and m' = "tracer_map 0"
       and rb = "\<lparr>max_entries = 100, used = 0, next_id = 0, queue = []\<rparr>"]
  from t h2 h3 have a: "gadget_reserve_buf (linux True) (tracer_map 0) 200 (queue_kernel 100) =
      (None, queue_kernel 100)"
    by blast
  then have h4: "fst (gadget_reserve_buf (linux True) (tracer_map 0) 200 (queue_kernel 100)) = None"
    by simp
  have h5: "fst (bpf_ringbuf_reserve (linux True) (tracer_map 0) 200 0 (queue_kernel 100)) = None"
    using h4 by (simp add: reserve_queue_branch linux_simps)
  from t h1 h5 have b: "gadget_reserve_buf (linux True) (tracer_map 0) 200 (queue_kernel 100) =
      (None, snd (bpf_ringbuf_reserve (linux True) (tracer_map 0) 200 0 (queue_kernel 100)))"
    by blast
  from t h4 have "gadget_reserve_buf (linux True) (tracer_map 0) 200 (queue_kernel 100) =
      (None, queue_kernel 100)"
    by blast
  with h1 h2 h3 h4 h5 b show ?thesis
    by blast
qed

subsection \<open>One transport for a whole execution\<close>

lemma exec_queue_only:
  assumes "bpf_core_type_exists_bpf_ringbuf K"
  shows "exec (K\<lparr>bpf_map_lookup_elem := f, bpf_perf_event_output := g\<rparr>) p s = exec K p s"
  using assms
  by (induction p arbitrary: s) (simp_all add: gadget_reserve_buf_def gadget_submit_buf_def)

lemma exec_slot_only:
  assumes "\<not> bpf_core_type_exists_bpf_ringbuf K"
  shows "exec (K\<lparr>bpf_ringbuf_reserve := f, bpf_ringbuf_submit := g\<rparr>) p s = exec K p s"
  using assms
  by (induction p arbitrary: s) (simp_all add: gadget_reserve_buf_def gadget_submit_buf_def)

text \<open>
  C7. The capability flag belongs to the environment a program is loaded into, and no
  helper can change it. So for each environment either every reserve takes the queue
  branch and every submit does, or every reserve takes the slot branch and every submit
  does, on all arguments and states. Over a whole execution of any calling program: in
  queue mode the run is the same when the two slot-path helpers are replaced by
  anything (they are never called), and in slot mode the same holds for the two queue
  helpers.
\<close>

theorem transports_mutually_exclusive:
  "((\<forall>m sz s c m' buf sz' s'.
        gadget_reserve_buf K m sz s = bpf_ringbuf_reserve K m sz 0 s \<and>
        gadget_submit_buf K c m' buf sz' s' = (0, bpf_ringbuf_submit K buf 0 s')) \<or>
    (\<forall>m sz s c m' buf sz' s'.
        gadget_reserve_buf K m sz s = bpf_map_lookup_elem K gadget_heap zero_key s \<and>
        gadget_submit_buf K c m' buf sz' s' =
          bpf_perf_event_output K c m' BPF_F_CURRENT_CPU buf sz' s')) \<and>
   (bpf_core_type_exists_bpf_ringbuf K \<longrightarrow>
      exec K p s0 = exec (K\<lparr>bpf_map_lookup_elem := f, bpf_perf_event_output := g\<rparr>) p s0) \<and>
   (\<not> bpf_core_type_exists_bpf_ringbuf K \<longrightarrow>
      exec K p s0 = exec (K\<lparr>bpf_ringbuf_reserve := f', bpf_ringbuf_submit := g'\<rparr>) p s0)"
proof (intro conjI impI)
  show "(\<forall>m sz s c m' buf sz' s'.
        gadget_reserve_buf K m sz s = bpf_ringbuf_reserve K m sz 0 s \<and>
        gadget_submit_buf K c m' buf sz' s' = (0, bpf_ringbuf_submit K buf 0 s')) \<or>
    (\<forall>m sz s c m' buf sz' s'.
        gadget_reserve_buf K m sz s = bpf_map_lookup_elem K gadget_heap zero_key s \<and>
        gadget_submit_buf K c m' buf sz' s' =
          bpf_perf_event_output K c m' BPF_F_CURRENT_CPU buf sz' s')"
  proof (cases "bpf_core_type_exists_bpf_ringbuf K")
    case True
    then show ?thesis
      by (simp add: reserve_queue_branch submit_queue_branch)
  next
    case False
    then show ?thesis
      by (simp add: reserve_slot_branch submit_slot_branch)
  qed
next
  assume "bpf_core_type_exists_bpf_ringbuf K"
  then show "exec K p s0 =
      exec (K\<lparr>bpf_map_lookup_elem := f, bpf_perf_event_output := g\<rparr>) p s0"
    by (simp add: exec_queue_only)
next
  assume "\<not> bpf_core_type_exists_bpf_ringbuf K"
  then show "exec K p s0 =
      exec (K\<lparr>bpf_ringbuf_reserve := f', bpf_ringbuf_submit := g'\<rparr>) p s0"
    by (simp add: exec_slot_only)
qed

text \<open>
  One event in queue mode with slot helpers that would fail, and one event in slot mode
  with queue helpers that would fail: the runs do not change.
\<close>

theorem transports_mutually_exclusive_witness:
  "bpf_core_type_exists_bpf_ringbuf (linux True) \<and>
   \<not> bpf_core_type_exists_bpf_ringbuf (linux False) \<and>
   exec (linux True) (one_event 7 (tracer_map 0) [1, 2]) (queue_kernel 4096) =
     exec ((linux True)\<lparr>bpf_map_lookup_elem := (\<lambda>m key s. (None, s)),
                        bpf_perf_event_output := (\<lambda>c m fl d sz s. (- 1, s))\<rparr>)
       (one_event 7 (tracer_map 0) [1, 2]) (queue_kernel 4096) \<and>
   exec (linux False) (one_event 7 (tracer_map 0) [1, 2]) slot_kernel =
     exec ((linux False)\<lparr>bpf_ringbuf_reserve := (\<lambda>m sz fl s. (None, s)),
                         bpf_ringbuf_submit := (\<lambda>buf fl s. s)\<rparr>)
       (one_event 7 (tracer_map 0) [1, 2]) slot_kernel"
proof -
  have h1: "bpf_core_type_exists_bpf_ringbuf (linux True)"
    and h2: "\<not> bpf_core_type_exists_bpf_ringbuf (linux False)"
    by (simp_all add: linux_simps)
  note t1 = transports_mutually_exclusive
    [where K = "linux True" and p = "one_event 7 (tracer_map 0) [1, 2]"
       and ?s0.0 = "queue_kernel 4096" and f = "\<lambda>m key s. (None, s)"
       and g = "\<lambda>c m fl d sz s. (- 1, s)"]
  note t2 = transports_mutually_exclusive
    [where K = "linux False" and p = "one_event 7 (tracer_map 0) [1, 2]"
       and ?s0.0 = slot_kernel and f' = "\<lambda>m sz fl s. (None, s)" and g' = "\<lambda>buf fl s. s"]
  from t1 h1 have a:
    "exec (linux True) (one_event 7 (tracer_map 0) [1, 2]) (queue_kernel 4096) =
     exec ((linux True)\<lparr>bpf_map_lookup_elem := (\<lambda>m key s. (None, s)),
                        bpf_perf_event_output := (\<lambda>c m fl d sz s. (- 1, s))\<rparr>)
       (one_event 7 (tracer_map 0) [1, 2]) (queue_kernel 4096)"
    by blast
  from t2 h2 have b:
    "exec (linux False) (one_event 7 (tracer_map 0) [1, 2]) slot_kernel =
     exec ((linux False)\<lparr>bpf_ringbuf_reserve := (\<lambda>m sz fl s. (None, s)),
                         bpf_ringbuf_submit := (\<lambda>buf fl s. s)\<rparr>)
       (one_event 7 (tracer_map 0) [1, 2]) slot_kernel"
    by blast
  from h1 h2 a b show ?thesis
    by blast
qed

subsection \<open>Queue mode: order of the records\<close>

lemma unat_payload_length:
  assumes "length p < 2 ^ 64"
  shows "unat (of_nat (length p) :: u64) = length p"
  using assms by (simp add: unat_of_nat)

lemma emit_event_queue:
  assumes "rings k i = Some rb" and "length p < 2 ^ 64"
  shows "emit_event (linux True) c (tracer_map i) p k =
           (if used rb + length p \<le> max_entries rb
            then (Submitted 0,
                  k\<lparr>mem := (mem k)(Record i (next_id rb) := None),
                    rings := (rings k)(i \<mapsto> rb\<lparr>used := used rb + length p,
                                               next_id := Suc (next_id rb),
                                               queue := queue rb @ [p]\<rparr>)\<rparr>)
            else (Skipped, k))"
proof (cases "used rb + length p \<le> max_entries rb")
  case False
  then show ?thesis
    using assms
    by (simp add: emit_event_def reserve_queue_branch linux_simps ringbuf_reserve_full
        unat_payload_length)
next
  case True
  let ?sz = "of_nat (length p) :: u64"
  let ?r = "Record i (next_id rb)"
  let ?fresh = "map (uninit k) [used rb ..< used rb + length p]"
  let ?rb1 = "rb\<lparr>used := used rb + length p, next_id := Suc (next_id rb)\<rparr>"
  let ?k1 = "k\<lparr>mem := (mem k)(?r \<mapsto> ?fresh), rings := (rings k)(i \<mapsto> ?rb1)\<rparr>"
  let ?k2 = "?k1\<lparr>mem := (mem ?k1)(?r \<mapsto> p @ drop (length p) ?fresh)\<rparr>"
  have res: "gadget_reserve_buf (linux True) (tracer_map i) ?sz k = (Some ?r, ?k1)"
    using ringbuf_reserve_fits [OF assms(1), of ?sz 0] True assms(2)
    by (simp add: reserve_queue_branch linux_simps unat_payload_length)
  have cell: "mem ?k1 ?r = Some ?fresh"
    by simp
  have wr: "write_buf (Some ?r) p ?k1 = Some ?k2"
    by (rule write_then_load(1) [OF cell]) simp
  have ring2: "rings ?k2 i = Some ?rb1" and mem2: "mem ?k2 ?r = Some p"
    by simp_all
  have sub: "gadget_submit_buf (linux True) c (tracer_map i) (Some ?r) ?sz ?k2 =
      (0, ?k2\<lparr>mem := (mem ?k2)(?r := None),
              rings := (rings ?k2)(i \<mapsto> ?rb1\<lparr>queue := queue ?rb1 @ [p]\<rparr>)\<rparr>)"
    using ringbuf_submit_live [OF ring2 mem2]
    by (simp add: submit_queue_branch linux_simps)
  have "emit_event (linux True) c (tracer_map i) p k =
      (Submitted 0, ?k2\<lparr>mem := (mem ?k2)(?r := None),
              rings := (rings ?k2)(i \<mapsto> ?rb1\<lparr>queue := queue ?rb1 @ [p]\<rparr>)\<rparr>)"
    by (simp only: emit_event_def res wr sub prod.case option.case)
  then show ?thesis
    using True by simp
qed

text \<open>
  C8. In queue mode, for every sequence of events that one execution unit reserves,
  writes and submits one after the other on a ring: the ring's queue afterwards is the
  queue before followed by the payloads of the submitted events, in the order of the
  calls; and when the ring has room for all of them, every event is submitted with
  status 0 and the queue grows by exactly the payloads, in order.
\<close>

theorem queue_fifo:
  assumes "rings k i = Some rb" and "\<forall>p \<in> set ps. length p < 2 ^ 64"
  shows "\<exists>rs k' rb'. emit_all (linux True) c (tracer_map i) ps k = (rs, k') \<and>
           rings k' i = Some rb' \<and>
           queue rb' = queue rb @ submitted_payloads rs ps \<and>
           (used rb + sum_list (map length ps) \<le> max_entries rb \<longrightarrow>
              rs = map (\<lambda>p. Submitted 0) ps \<and> queue rb' = queue rb @ ps)"
  using assms
proof (induction ps arbitrary: k rb)
  case Nil
  then show ?case
    by simp
next
  case (Cons p ps)
  from Cons.prems(2) have lp: "length p < 2 ^ 64" and lps: "\<forall>q \<in> set ps. length q < 2 ^ 64"
    by simp_all
  note ev = emit_event_queue [OF Cons.prems(1) lp, of c]
  show ?case
  proof (cases "used rb + length p \<le> max_entries rb")
    case True
    let ?rb1 = "rb\<lparr>used := used rb + length p, next_id := Suc (next_id rb),
                   queue := queue rb @ [p]\<rparr>"
    let ?k1 = "k\<lparr>mem := (mem k)(Record i (next_id rb) := None),
                 rings := (rings k)(i \<mapsto> ?rb1)\<rparr>"
    have e1: "emit_event (linux True) c (tracer_map i) p k = (Submitted 0, ?k1)"
      using ev True by simp
    have r1: "rings ?k1 i = Some ?rb1"
      by simp
    from Cons.IH [OF r1 lps] obtain rs k' rb' where
      run: "emit_all (linux True) c (tracer_map i) ps ?k1 = (rs, k')"
      and ring: "rings k' i = Some rb'"
      and q: "queue rb' = queue ?rb1 @ submitted_payloads rs ps"
      and fit: "used ?rb1 + sum_list (map length ps) \<le> max_entries ?rb1 \<longrightarrow>
                  rs = map (\<lambda>p. Submitted 0) ps \<and> queue rb' = queue ?rb1 @ ps"
      by blast
    have "emit_all (linux True) c (tracer_map i) (p # ps) k = (Submitted 0 # rs, k')"
      by (simp add: e1 run)
    moreover have "queue rb' = queue rb @ submitted_payloads (Submitted 0 # rs) (p # ps)"
      using q by simp
    moreover have "used rb + sum_list (map length (p # ps)) \<le> max_entries rb \<longrightarrow>
        Submitted 0 # rs = map (\<lambda>p. Submitted 0) (p # ps) \<and> queue rb' = queue rb @ (p # ps)"
      using fit by (simp add: add.assoc)
    ultimately show ?thesis
      using ring by - (rule exI, rule exI, rule exI, intro conjI, assumption+)
  next
    case False
    have e1: "emit_event (linux True) c (tracer_map i) p k = (Skipped, k)"
      using ev False by simp
    from Cons.IH [OF Cons.prems(1) lps] obtain rs k' rb' where
      run: "emit_all (linux True) c (tracer_map i) ps k = (rs, k')"
      and ring: "rings k' i = Some rb'"
      and q: "queue rb' = queue rb @ submitted_payloads rs ps"
      by blast
    have "emit_all (linux True) c (tracer_map i) (p # ps) k = (Skipped # rs, k')"
      by (simp add: e1 run)
    moreover have "queue rb' = queue rb @ submitted_payloads (Skipped # rs) (p # ps)"
      using q by simp
    moreover have "used rb + sum_list (map length (p # ps)) \<le> max_entries rb \<longrightarrow>
        Skipped # rs = map (\<lambda>p. Submitted 0) (p # ps) \<and> queue rb' = queue rb @ (p # ps)"
      using False by simp
    ultimately show ?thesis
      using ring by - (rule exI, rule exI, rule exI, intro conjI, assumption+)
  qed
qed

text \<open>
  The scenario of the specification: a ring of 4096 bytes, two events of 100 and 200
  bytes from one execution unit; the consumer sees the record of 100 bytes, then the one
  of 200 bytes.
\<close>

theorem queue_fifo_witness:
  "rings (queue_kernel 4096) 0 =
     Some \<lparr>max_entries = 4096, used = 0, next_id = 0, queue = []\<rparr> \<and>
   length (replicate 100 (1 :: u8)) < 2 ^ 64 \<and> length (replicate 200 (2 :: u8)) < 2 ^ 64 \<and>
   (\<exists>k' rb'. emit_all (linux True) 7 (tracer_map 0) [replicate 100 1, replicate 200 2]
                (queue_kernel 4096) = ([Submitted 0, Submitted 0], k') \<and>
              rings k' 0 = Some rb' \<and>
              queue rb' = [replicate 100 1, replicate 200 2])"
proof -
  let ?rb = "\<lparr>max_entries = 4096, used = 0, next_id = 0, queue = []\<rparr>"
  let ?ps = "[replicate 100 (1 :: u8), replicate 200 2]"
  have h1: "rings (queue_kernel 4096) 0 = Some ?rb"
    by (simp add: queue_kernel_def)
  have h2: "\<forall>p \<in> set ?ps. length p < 2 ^ 64"
    by simp
  have h3: "used ?rb + sum_list (map length ?ps) \<le> max_entries ?rb"
    by simp
  from queue_fifo [OF h1 h2, of 7] obtain rs k' rb' where
    run: "emit_all (linux True) 7 (tracer_map 0) ?ps (queue_kernel 4096) = (rs, k')"
    and ring: "rings k' 0 = Some rb'"
    and fit: "used ?rb + sum_list (map length ?ps) \<le> max_entries ?rb \<longrightarrow>
                rs = map (\<lambda>p. Submitted 0) ?ps \<and> queue rb' = queue ?rb @ ?ps"
    by blast
  from fit h3 have rs: "rs = [Submitted 0, Submitted 0]" and q: "queue rb' = ?ps"
    by simp_all
  from run rs ring q have "\<exists>k' rb'. emit_all (linux True) 7 (tracer_map 0) ?ps
      (queue_kernel 4096) = ([Submitted 0, Submitted 0], k') \<and>
      rings k' 0 = Some rb' \<and> queue rb' = ?ps"
    by blast
  with h1 h2 show ?thesis
    by simp
qed


end
